theory Spec2Isabelle
  imports Complex_Main
begin

section \<open>Blueprint tasks (authentik/blueprints/v1/tasks.py)\<close>

subsection \<open>Data model\<close>

text \<open>
  The exception classes that the tasks name. \<open>OtherError\<close> stands for every exception
  class that no \<open>except\<close> clause of the module lists.
\<close>

datatype exn =
    OSError
  | DatabaseError
  | ProgrammingError
  | InternalError
  | BlueprintRetrievalFailed
  | EntryInvalidError
  | YAMLError
  | OtherError

datatype BlueprintInstanceStatus = SUCCESSFUL | ERROR | UNKNOWN

datatype TaskStatus = TASK_SUCCESSFUL | TASK_ERROR

text \<open>\<open>BlueprintMetadata\<close>: a name and a dictionary of labels (string to string).\<close>

record BlueprintMetadata =
  meta_name :: string
  labels :: "(string \<times> string) list"

text \<open>\<open>class BlueprintFile\<close> (lines 45-53).\<close>

record BlueprintFile =
  bf_path :: string
  bf_version :: int
  bf_hash :: string
  bf_last_m :: int
  bf_meta :: "BlueprintMetadata option"

text \<open>
  A row of the instance store. \<open>pk\<close> is the primary key in the string form the tasks
  pass around; \<open>last_applied_hash\<close> is the empty string until the first successful
  apply; \<open>metadata = None\<close> is the empty dictionary the instance is created with.
\<close>

record BlueprintInstance =
  pk :: string
  name :: string
  path :: string
  inst_context :: "(string \<times> string) list"
  enabled :: bool
  status :: BlueprintInstanceStatus
  last_applied_hash :: string
  last_applied :: "nat option"
  metadata :: "BlueprintMetadata option"
  managed_models :: "string list"

text \<open>
  The instance store is the list of its rows, in the store's default order.
  \<open>objects.filter(...).first()\<close> is \<open>find\<close>. A call of \<open>instance.save()\<close> that the store
  accepts is \<open>save\<close>: it replaces the row with the instance's primary key, or adds the
  row. In the Apply Task a call of \<open>instance.save()\<close> can also raise and then writes
  nothing; whether it does is given with the collaborators of the run.
\<close>

type_synonym store = "BlueprintInstance list"

fun save :: "BlueprintInstance \<Rightarrow> store \<Rightarrow> store" where
  "save i [] = [i]"
| "save i (r # rs) = (if pk r = pk i then i # rs else r # save i rs)"

text \<open>
  The importer that \<open>Importer.from_string\<close> builds: the metadata of the parsed blueprint,
  what its \<open>validate()\<close> gives (a flag and log lines, or an exception) and what its
  \<open>apply()\<close> gives, with the log lines \<open>capture_logs\<close> collects meanwhile.
\<close>

record Importer =
  blueprint_metadata :: "BlueprintMetadata option"
  validate_result :: "exn + bool \<times> string list"
  apply_result :: "exn + bool"
  apply_logs :: "string list"

text \<open>
  The collaborators of one run of the Apply Task. \<open>save_try\<close> is what the call of
  \<open>instance.save()\<close> inside the \<open>try\<close> block does (line 214 or line 221; a run reaches at
  most one of them) and \<open>save_finally\<close> what the call in the \<open>finally\<close> clause does
  (line 241): \<open>None\<close> when the store accepts the write, the exception when the call raises.
\<close>

record apply_env =
  retrieve :: "BlueprintInstance \<Rightarrow> exn + string"
  from_string :: "string \<Rightarrow> (string \<times> string) list \<Rightarrow> exn + Importer"
  sha512_hexdigest :: "string \<Rightarrow> string"
  slugify :: "string \<Rightarrow> string"
  now :: nat
  save_try :: "exn option"
  save_finally :: "exn option"

text \<open>What the task reports to the task framework, in call order.\<close>

datatype task_call =
    SaveOnSuccess bool
  | SetUid string
  | SetStatus TaskStatus "string list"
  | SetError exn

datatype outcome = Returned | Raised exn

subsection \<open>The Apply Task\<close>

text \<open>
  The body of the \<open>try\<close> block of \<open>apply_blueprint\<close> (lines 202-227). It gives how the
  block ends, the local variable \<open>instance\<close>, the store and the calls on the task.
\<close>

definition try_block ::
  "apply_env \<Rightarrow> string \<Rightarrow> store \<Rightarrow> task_call list
    \<Rightarrow> outcome \<times> BlueprintInstance option \<times> store \<times> task_call list" where
  "try_block env instance_pk st calls =
    (case find (\<lambda>i. pk i = instance_pk) st of
      None \<Rightarrow> (Returned, None, st, calls)
    | Some instance \<Rightarrow>
        if \<not> enabled instance then (Returned, Some instance, st, calls)
        else
          let calls1 = calls @ [SetUid (slugify env (name instance))] in
          (case retrieve env instance of
            Inl e \<Rightarrow> (Raised e, Some instance, st, calls1)
          | Inr blueprint_content \<Rightarrow>
              let file_hash = sha512_hexdigest env blueprint_content in
              (case from_string env blueprint_content (inst_context instance) of
                Inl e \<Rightarrow> (Raised e, Some instance, st, calls1)
              | Inr importer \<Rightarrow>
                  let instance1 =
                    (case blueprint_metadata importer of
                      Some m \<Rightarrow> instance\<lparr>metadata := Some m\<rparr>
                    | None \<Rightarrow> instance) in
                  (case validate_result importer of
                    Inl e \<Rightarrow> (Raised e, Some instance1, st, calls1)
                  | Inr (valid, logs) \<Rightarrow>
                      if \<not> valid then
                        let instance2 = instance1\<lparr>status := ERROR\<rparr> in
                        (case save_try env of
                          Some e \<Rightarrow> (Raised e, Some instance2, st, calls1)
                        | None \<Rightarrow>
                            (Returned, Some instance2, save instance2 st,
                              calls1 @ [SetStatus TASK_ERROR logs]))
                      else
                        (case apply_result importer of
                          Inl e \<Rightarrow> (Raised e, Some instance1, st, calls1)
                        | Inr applied \<Rightarrow>
                            if \<not> applied then
                              let instance2 = instance1\<lparr>status := ERROR\<rparr> in
                              (case save_try env of
                                Some e \<Rightarrow> (Raised e, Some instance2, st, calls1)
                              | None \<Rightarrow>
                                  (Returned, Some instance2, save instance2 st,
                                    calls1 @ [SetStatus TASK_ERROR (apply_logs importer)]))
                            else
                              (Returned,
                                Some (instance1\<lparr>status := SUCCESSFUL,
                                  last_applied_hash := file_hash,
                                  last_applied := Some (now env)\<rparr>),
                                st, calls1 @ [SetStatus TASK_SUCCESSFUL []]))))))"

text \<open>The exception classes of the \<open>except\<close> clause (lines 228-235).\<close>

fun recognized :: "exn \<Rightarrow> bool" where
  "recognized OSError = True"
| "recognized DatabaseError = True"
| "recognized ProgrammingError = True"
| "recognized InternalError = True"
| "recognized BlueprintRetrievalFailed = True"
| "recognized EntryInvalidError = True"
| "recognized YAMLError = False"
| "recognized OtherError = False"

text \<open>The \<open>except\<close> clause (lines 228-238): a recognized exception ends there.\<close>

definition except_block ::
  "outcome \<times> BlueprintInstance option \<times> store \<times> task_call list
    \<Rightarrow> outcome \<times> BlueprintInstance option \<times> store \<times> task_call list" where
  "except_block r =
    (case r of
      (Raised exc, instance, st, calls) \<Rightarrow>
        if recognized exc then
          (Returned, map_option (\<lambda>i. i\<lparr>status := ERROR\<rparr>) instance, st, calls @ [SetError exc])
        else (Raised exc, instance, st, calls)
    | (Returned, instance, st, calls) \<Rightarrow> (Returned, instance, st, calls))"

text \<open>
  The \<open>finally\<close> clause (lines 239-241). When its call of \<open>instance.save()\<close> raises,
  nothing is written and that exception leaves the task, whatever the outcome was.
\<close>

definition finally_block ::
  "apply_env \<Rightarrow> outcome \<times> BlueprintInstance option \<times> store \<times> task_call list
    \<Rightarrow> outcome \<times> store \<times> task_call list" where
  "finally_block env r =
    (case r of
      (out, Some instance, st, calls) \<Rightarrow>
        (case save_finally env of
          Some e \<Rightarrow> (Raised e, st, calls)
        | None \<Rightarrow> (out, save instance st, calls))
    | (out, None, st, calls) \<Rightarrow> (out, st, calls))"

text \<open>\<open>apply_blueprint\<close> (lines 197-241).\<close>

definition apply_blueprint ::
  "apply_env \<Rightarrow> string \<Rightarrow> store \<Rightarrow> outcome \<times> store \<times> task_call list" where
  "apply_blueprint env instance_pk st =
    finally_block env (except_block (try_block env instance_pk st [SaveOnSuccess False]))"

subsection \<open>Facts about the store\<close>

lemma find_pk: "find (\<lambda>r. pk r = k) st = Some i \<Longrightarrow> pk i = k"
  by (induction st) (auto split: if_splits)


lemma find_save: "pk i = k \<Longrightarrow> find (\<lambda>r. pk r = k) (save i st) = Some i"
  by (induction st) auto

lemma save_save: "pk i = pk j \<Longrightarrow> save i (save j st) = save i st"
  by (induction st) auto





subsection \<open>Exit paths of the Apply Task\<close>





subsection \<open>A successful run of the Apply Task\<close>

definition applied_instance :: "apply_env \<Rightarrow> BlueprintInstance \<Rightarrow> string \<Rightarrow> Importer \<Rightarrow> BlueprintInstance" where
  "applied_instance env i c imp =
    (case blueprint_metadata imp of Some m \<Rightarrow> i\<lparr>metadata := Some m\<rparr> | None \<Rightarrow> i)
      \<lparr>status := SUCCESSFUL, last_applied_hash := sha512_hexdigest env c,
       last_applied := Some (now env)\<rparr>"

lemma apply_blueprint_success:
  assumes f: "find (\<lambda>i. pk i = k) st = Some i" and en: "enabled i"
    and re: "retrieve env i = Inr c"
    and fs: "from_string env c (inst_context i) = Inr imp"
    and va: "validate_result imp = Inr (True, logs)"
    and ap: "apply_result imp = Inr True"
  shows "apply_blueprint env k st =
      (case save_finally env of
        None \<Rightarrow> (Returned, save (applied_instance env i c imp) st,
          [SaveOnSuccess False, SetUid (slugify env (name i)), SetStatus TASK_SUCCESSFUL []])
      | Some x \<Rightarrow> (Raised x, st,
          [SaveOnSuccess False, SetUid (slugify env (name i)), SetStatus TASK_SUCCESSFUL []]))"
    and "find (\<lambda>i. pk i = k) (save (applied_instance env i c imp) st) = Some (applied_instance env i c imp)"
proof -
  have p: "pk i = k" using f by (rule find_pk)
  show "apply_blueprint env k st =
      (case save_finally env of
        None \<Rightarrow> (Returned, save (applied_instance env i c imp) st,
          [SaveOnSuccess False, SetUid (slugify env (name i)), SetStatus TASK_SUCCESSFUL []])
      | Some x \<Rightarrow> (Raised x, st,
          [SaveOnSuccess False, SetUid (slugify env (name i)), SetStatus TASK_SUCCESSFUL []]))"
    by (simp add: apply_blueprint_def try_block_def f en re fs va ap Let_def except_block_def
        finally_block_def applied_instance_def split: option.splits)
  show "find (\<lambda>i. pk i = k) (save (applied_instance env i c imp) st) = Some (applied_instance env i c imp)"
    by (rule find_save) (simp add: applied_instance_def p split: option.splits)
qed

lemma applied_instance_fields:
  "status (applied_instance env i c imp) = SUCCESSFUL"
  "last_applied_hash (applied_instance env i c imp) = sha512_hexdigest env c"
  "enabled (applied_instance env i c imp) = enabled i"
  "inst_context (applied_instance env i c imp) = inst_context i"
  by (simp_all add: applied_instance_def split: option.splits)

subsection \<open>Example values\<close>

definition ex_instance :: BlueprintInstance where
  "ex_instance =
    \<lparr>pk = ''7'', name = ''Default flows'', path = ''flows/default.yaml'', inst_context = [],
     enabled = True, status = UNKNOWN, last_applied_hash = [], last_applied = None,
     metadata = None, managed_models = []\<rparr>"

definition ex_importer :: Importer where
  "ex_importer =
    \<lparr>blueprint_metadata = None, validate_result = Inr (True, []), apply_result = Inr True,
     apply_logs = []\<rparr>"

definition ex_env :: apply_env where
  "ex_env =
    \<lparr>retrieve = (\<lambda>i. if path i = ''flows/default.yaml'' then Inr ''version: 1''
        else Inl BlueprintRetrievalFailed),
     from_string = (\<lambda>c ctx. Inr ex_importer),
     sha512_hexdigest = (\<lambda>c. ''sha512:'' @ c),
     slugify = (\<lambda>s. s),
     now = 1,
     save_try = None,
     save_finally = None\<rparr>"

subsection \<open>Applying an unchanged blueprint twice\<close>

text \<open>
  Claim C4. A blueprint is applied with success and the store accepts the save of that
  run; it is applied again: the second run retrieves content with the digest of the
  first, and its validation and apply steps succeed again. Then the instance is
  Successful after the first run, and after the second run the stored instance has the
  same \<open>last_applied_hash\<close> and is still Successful. The second run returns; the one
  other way it can end is that its own save raises, and then the store is left as the
  first run wrote it.
\<close>

theorem C4_apply_twice_keeps_hash_and_status:
  assumes f0: "find (\<lambda>i. pk i = k) st0 = Some i0" and en: "enabled i0"
    and re1: "retrieve env1 i0 = Inr c1"
    and fs1: "from_string env1 c1 (inst_context i0) = Inr imp1"
    and va1: "validate_result imp1 = Inr (True, logs1)"
    and ap1: "apply_result imp1 = Inr True"
    and sv1: "save_finally env1 = None"
    and run1: "apply_blueprint env1 k st0 = (r1, st1, calls1)"
    and f1: "find (\<lambda>i. pk i = k) st1 = Some i1"
    and re2: "retrieve env2 i1 = Inr c2"
    and same: "sha512_hexdigest env2 c2 = sha512_hexdigest env1 c1"
    and fs2: "from_string env2 c2 (inst_context i1) = Inr imp2"
    and va2: "validate_result imp2 = Inr (True, logs2)"
    and ap2: "apply_result imp2 = Inr True"
    and run2: "apply_blueprint env2 k st1 = (r2, st2, calls2)"
  shows "status i1 = SUCCESSFUL \<and>
    r2 = (case save_finally env2 of None \<Rightarrow> Returned | Some x \<Rightarrow> Raised x) \<and>
    (\<exists>i2. find (\<lambda>i. pk i = k) st2 = Some i2 \<and>
      last_applied_hash i2 = last_applied_hash i1 \<and> status i2 = SUCCESSFUL)"
proof -
  note s1 = apply_blueprint_success [OF f0 en re1 fs1 va1 ap1]
  have st1: "st1 = save (applied_instance env1 i0 c1 imp1) st0"
    using run1 s1(1) by (simp add: sv1)
  have i1: "i1 = applied_instance env1 i0 c1 imp1"
    using f1 s1(2) st1 by simp
  have en1: "enabled i1" by (simp add: i1 applied_instance_fields en)
  have h1: "status i1 = SUCCESSFUL" by (simp add: i1 applied_instance_fields)
  note s2 = apply_blueprint_success [OF f1 en1 re2 fs2 va2 ap2]
  have r2: "r2 = (case save_finally env2 of None \<Rightarrow> Returned | Some x \<Rightarrow> Raised x)"
    using run2 s2(1) by (simp split: option.splits)
  have "\<exists>i2. find (\<lambda>i. pk i = k) st2 = Some i2 \<and>
      last_applied_hash i2 = last_applied_hash i1 \<and> status i2 = SUCCESSFUL"
  proof (cases "save_finally env2")
    case None
    then have "st2 = save (applied_instance env2 i1 c2 imp2) st1"
      using run2 s2(1) by simp
    then have "find (\<lambda>i. pk i = k) st2 = Some (applied_instance env2 i1 c2 imp2)"
      using s2(2) by simp
    moreover have "last_applied_hash (applied_instance env2 i1 c2 imp2) = last_applied_hash i1"
      by (simp add: applied_instance_fields i1 same)
    moreover have "status (applied_instance env2 i1 c2 imp2) = SUCCESSFUL"
      by (simp add: applied_instance_fields)
    ultimately show ?thesis by blast
  next
    case (Some x)
    then have "st2 = st1" using run2 s2(1) by simp
    then show ?thesis using f1 h1 by simp
  qed
  then show ?thesis using h1 r2 by blast
qed

theorem C4_apply_twice_witness:
  "\<exists>st1 i1 st2 i2.
    apply_blueprint ex_env ''7'' [ex_instance] = (Returned, st1, [SaveOnSuccess False, SetUid ''Default flows'', SetStatus TASK_SUCCESSFUL []]) \<and>
    find (\<lambda>i. pk i = ''7'') st1 = Some i1 \<and> status i1 = SUCCESSFUL \<and>
    last_applied_hash i1 = ''sha512:version: 1'' \<and>
    apply_blueprint (ex_env\<lparr>now := 2\<rparr>) ''7'' st1 = (Returned, st2, [SaveOnSuccess False, SetUid ''Default flows'', SetStatus TASK_SUCCESSFUL []]) \<and>
    find (\<lambda>i. pk i = ''7'') st2 = Some i2 \<and> status i2 = SUCCESSFUL \<and>
    last_applied_hash i2 = ''sha512:version: 1''"
proof -
  define i1 where "i1 = ex_instance\<lparr>status := SUCCESSFUL,
    last_applied_hash := ''sha512:version: 1'', last_applied := Some 1\<rparr>"
  define i2 where "i2 = i1\<lparr>last_applied := Some 2\<rparr>"
  define calls where "calls = [SaveOnSuccess False, SetUid ''Default flows'', SetStatus TASK_SUCCESSFUL []]"
  have f0: "find (\<lambda>i. pk i = ''7'') [ex_instance] = Some ex_instance"
    by (simp add: ex_instance_def)
  have en: "enabled ex_instance" by (simp add: ex_instance_def)
  have re1: "retrieve ex_env ex_instance = Inr ''version: 1''"
    by (simp add: ex_env_def ex_instance_def)
  have fs1: "from_string ex_env ''version: 1'' (inst_context ex_instance) = Inr ex_importer"
    by (simp add: ex_env_def)
  have va: "validate_result ex_importer = Inr (True, [])" by (simp add: ex_importer_def)
  have ap: "apply_result ex_importer = Inr True" by (simp add: ex_importer_def)
  have sv: "save_finally ex_env = None" by (simp add: ex_env_def)
  have run1: "apply_blueprint ex_env ''7'' [ex_instance] = (Returned, [i1], calls)"
    by (simp add: apply_blueprint_def try_block_def except_block_def finally_block_def
        ex_env_def ex_instance_def ex_importer_def i1_def calls_def)
  have f1: "find (\<lambda>i. pk i = ''7'') [i1] = Some i1"
    by (simp add: i1_def ex_instance_def)
  have re2: "retrieve (ex_env\<lparr>now := 2\<rparr>) i1 = Inr ''version: 1''"
    by (simp add: ex_env_def ex_instance_def i1_def)
  have same: "sha512_hexdigest (ex_env\<lparr>now := 2\<rparr>) ''version: 1'' = sha512_hexdigest ex_env ''version: 1''"
    by (simp add: ex_env_def)
  have fs2: "from_string (ex_env\<lparr>now := 2\<rparr>) ''version: 1'' (inst_context i1) = Inr ex_importer"
    by (simp add: ex_env_def)
  have run2: "apply_blueprint (ex_env\<lparr>now := 2\<rparr>) ''7'' [i1] = (Returned, [i2], calls)"
    by (simp add: apply_blueprint_def try_block_def except_block_def finally_block_def
        ex_env_def ex_instance_def ex_importer_def i1_def i2_def calls_def)
  from C4_apply_twice_keeps_hash_and_status [OF f0 en re1 fs1 va ap sv run1 f1 re2 same fs2 va ap run2]
  obtain j where j: "find (\<lambda>i. pk i = ''7'') [i2] = Some j" "last_applied_hash j = last_applied_hash i1"
    "status j = SUCCESSFUL" "status i1 = SUCCESSFUL"
    by blast
  have h1: "last_applied_hash i1 = ''sha512:version: 1''" by (simp add: i1_def)
  have "apply_blueprint ex_env ''7'' [ex_instance] = (Returned, [i1], calls) \<and>
    find (\<lambda>i. pk i = ''7'') [i1] = Some i1 \<and> status i1 = SUCCESSFUL \<and>
    last_applied_hash i1 = ''sha512:version: 1'' \<and>
    apply_blueprint (ex_env\<lparr>now := 2\<rparr>) ''7'' [i1] = (Returned, [i2], calls) \<and>
    find (\<lambda>i. pk i = ''7'') [i2] = Some j \<and> status j = SUCCESSFUL \<and>
    last_applied_hash j = ''sha512:version: 1''"
    using run1 f1 run2 j h1 by simp
  then show ?thesis unfolding calls_def by blast
qed

subsection \<open>The exit paths of the Apply Task\<close>






section \<open>Reconciliation (check_blueprint_v1_file, blueprints_discovery)\<close>

text \<open>
  \<open>str.lower()\<close> on the letters A to Z; every other character is kept. (Strings are byte
  lists here; no character outside ASCII lowers to one of the letters of \<open>false\<close>.)
\<close>

definition lower_char :: "char \<Rightarrow> char" where
  "lower_char c =
    (case map_of (zip ''ABCDEFGHIJKLMNOPQRSTUVWXYZ'' ''abcdefghijklmnopqrstuvwxyz'') c of
      Some d \<Rightarrow> d
    | None \<Rightarrow> c)"

definition str_lower :: "string \<Rightarrow> string" where
  "str_lower s = map lower_char s"

text \<open>\<open>d.get(key, default)\<close> on a dictionary kept as an association list.\<close>

definition dict_get :: "('k \<times> 'v) list \<Rightarrow> 'k \<Rightarrow> 'v \<Rightarrow> 'v" where
  "dict_get d key dflt = (case map_of d key of Some v \<Rightarrow> v | None \<Rightarrow> dflt)"

text \<open>
  The state of a reconciliation pass: the instance store, the arguments of the
  \<open>apply_blueprint.delay\<close> calls so far, in order, and how many primary keys were drawn
  for new instances.
\<close>

record reconcile_state =
  instances :: store
  scheduled :: "string list"
  drawn :: nat

text \<open>
  Modelled from the spec: the model class \<open>BlueprintInstance\<close> is not under src/, so the
  two fields that the constructor call leaves to their defaults, \<open>last_applied_hash\<close> and
  \<open>last_applied\<close>, are empty, as the spec's data model has them before an apply. The other
  fields are those of the constructor call of lines 175-183; the primary key is the next
  one drawn (\<open>uuid4\<close>, a parameter).
\<close>

definition new_instance :: "string \<Rightarrow> BlueprintFile \<Rightarrow> BlueprintInstance" where
  "new_instance key blueprint =
    \<lparr>pk = key,
     name = (case bf_meta blueprint of Some m \<Rightarrow> meta_name m | None \<Rightarrow> bf_path blueprint),
     path = bf_path blueprint,
     inst_context = [],
     enabled = True,
     status = UNKNOWN,
     last_applied_hash = [],
     last_applied = None,
     metadata = None,
     managed_models = []\<rparr>"

text \<open>The test of lines 169-172.\<close>

definition instantiate_false :: "string \<Rightarrow> BlueprintFile \<Rightarrow> bool" where
  "instantiate_false LABEL_AUTHENTIK_INSTANTIATE blueprint =
    (case bf_meta blueprint of
      None \<Rightarrow> False
    | Some m \<Rightarrow> str_lower (dict_get (labels m) LABEL_AUTHENTIK_INSTANTIATE []) = ''false'')"

text \<open>
  \<open>check_blueprint_v1_file\<close> (lines 166-190). The label key \<open>LABEL_AUTHENTIK_INSTANTIATE\<close>
  is imported from a module that is not under src/, so it is a parameter. The store is
  taken to accept the write of line 184.
\<close>

definition check_blueprint_v1_file ::
  "(nat \<Rightarrow> string) \<Rightarrow> string \<Rightarrow> BlueprintFile \<Rightarrow> reconcile_state \<Rightarrow> reconcile_state" where
  "check_blueprint_v1_file uuid4 LABEL_AUTHENTIK_INSTANTIATE blueprint s =
    (let instance = find (\<lambda>i. path i = bf_path blueprint) (instances s) in
     if instantiate_false LABEL_AUTHENTIK_INSTANTIATE blueprint then s
     else
       let (instance1, s1) =
         (case instance of
           None \<Rightarrow>
             let created = new_instance (uuid4 (drawn s)) blueprint in
             (created, s\<lparr>instances := save created (instances s), drawn := Suc (drawn s)\<rparr>)
         | Some found \<Rightarrow> (found, s))
       in
         if last_applied_hash instance1 \<noteq> bf_hash blueprint
         then s1\<lparr>scheduled := scheduled s1 @ [pk instance1]\<rparr>
         else s1)"

text \<open>The test of line 157, \<open>path and blueprint.path != path\<close>: the path filter passes
  the descriptor over.\<close>

definition passed_over :: "string option \<Rightarrow> BlueprintFile \<Rightarrow> bool" where
  "passed_over path_filter blueprint =
    (case path_filter of None \<Rightarrow> False | Some p \<Rightarrow> p \<noteq> [] \<and> bf_path blueprint \<noteq> p)"

text \<open>
  The loop of \<open>blueprints_discovery\<close> (lines 155-160) over the descriptors that
  \<open>blueprints_find\<close> gave; \<open>count\<close> is carried along.
\<close>

fun discovery_loop ::
  "(nat \<Rightarrow> string) \<Rightarrow> string \<Rightarrow> string option \<Rightarrow> BlueprintFile list
    \<Rightarrow> reconcile_state \<times> nat \<Rightarrow> reconcile_state \<times> nat" where
  "discovery_loop uuid4 lbl path_filter [] (s, count) = (s, count)"
| "discovery_loop uuid4 lbl path_filter (blueprint # rest) (s, count) =
    (if passed_over path_filter blueprint
     then discovery_loop uuid4 lbl path_filter rest (s, count)
     else discovery_loop uuid4 lbl path_filter rest
       (check_blueprint_v1_file uuid4 lbl blueprint s, count + 1))"

lemma check_skip:
  "instantiate_false lbl b \<Longrightarrow> check_blueprint_v1_file uuid4 lbl b s = s"
  by (simp add: check_blueprint_v1_file_def)




definition ex_uuid4 :: "nat \<Rightarrow> string" where
  "ex_uuid4 n = ''uuid-'' @ replicate n (CHR ''i'')"

definition ex_label :: string where
  "ex_label = ''blueprints.goauthentik.io/instantiate''"

definition ex_blueprint :: BlueprintFile where
  "ex_blueprint =
    \<lparr>bf_path = ''flows/default.yaml'', bf_version = 1, bf_hash = ''sha512:version: 1'',
     bf_last_m = 1700000000, bf_meta = None\<rparr>"

definition ex_discovery_only :: BlueprintFile where
  "ex_discovery_only =
    ex_blueprint\<lparr>bf_meta :=
      Some \<lparr>meta_name = ''Example'', labels = [(ex_label, ''False'')]\<rparr>\<rparr>"

definition ex_state :: reconcile_state where
  "ex_state = \<lparr>instances = [ex_instance], scheduled = [], drawn = 0\<rparr>"

subsection \<open>What one check of a descriptor schedules\<close>
















subsection \<open>What a reconciliation pass schedules for a descriptor\<close>





subsection \<open>Discovery-only blueprints\<close>

text \<open>
  Claim C7. When the metadata labels of a scanned blueprint hold an instantiate label
  whose value lowers to \<open>false\<close>, the check leaves the reconciliation state as it was: no
  instance is created and no Apply Task is scheduled, whether or not an instance with
  that path exists; the pass still counts the descriptor.
\<close>

theorem C7_instantiate_false_skips:
  assumes "bf_meta b = Some m"
    and "map_of (labels m) lbl = Some v"
    and "str_lower v = ''false''"
  shows "check_blueprint_v1_file uuid4 lbl b s = s \<and>
    discovery_loop uuid4 lbl None [b] (s, count) = (s, count + 1)"
proof -
  have "instantiate_false lbl b"
    using assms by (simp add: instantiate_false_def dict_get_def)
  then show ?thesis by (simp add: check_skip passed_over_def)
qed

theorem C7_instantiate_false_skips_witness:
  "str_lower ''False'' = ''false'' \<and>
   find (\<lambda>i. path i = bf_path ex_discovery_only) (instances ex_state) = Some ex_instance \<and>
   check_blueprint_v1_file ex_uuid4 ex_label ex_discovery_only ex_state = ex_state \<and>
   check_blueprint_v1_file ex_uuid4 ex_label ex_discovery_only (ex_state\<lparr>instances := []\<rparr>) =
     ex_state\<lparr>instances := []\<rparr>"
proof -
  have m: "bf_meta ex_discovery_only = Some \<lparr>meta_name = ''Example'', labels = [(ex_label, ''False'')]\<rparr>"
    by (simp add: ex_discovery_only_def)
  have l: "map_of (labels \<lparr>meta_name = ''Example'', labels = [(ex_label, ''False'')]\<rparr>) ex_label = Some ''False''"
    by simp
  have v: "str_lower ''False'' = ''false''"
    by (simp add: str_lower_def lower_char_def)
  have f: "find (\<lambda>i. path i = bf_path ex_discovery_only) (instances ex_state) = Some ex_instance"
    by (simp add: ex_state_def ex_instance_def ex_discovery_only_def ex_blueprint_def)
  from C7_instantiate_false_skips [OF m l v] v f show ?thesis by simp
qed

section \<open>The blueprint scanner (blueprints_find)\<close>

text \<open>
  A path is the list of its parts, as \<open>pathlib\<close>'s \<open>path.parts\<close> gives them. A candidate
  file is a path that \<open>root.rglob\<close> yields: the parts of the root followed by the parts of
  the file's path relative to the root (\<open>path.relative_to(root)\<close>), with the bytes of the
  file and its modification time.
\<close>

record candidate =
  rel_parts :: "string list"
  file_bytes :: string
  st_mtime :: int

text \<open>
  The parsed document, as far as the scanner reads it: the \<open>metadata\<close> entry (a
  dictionary, \<open>None\<close> when the key is absent) and the \<open>version\<close> entry.
\<close>

record raw_blueprint =
  raw_metadata :: "(string \<times> string) list option"
  raw_version :: "int option"

text \<open>
  The collaborators of the scan: the YAML loader (an exception, or the document, \<open>None\<close>
  for a document that is empty or null), \<open>from_dict\<close> for the metadata, and the digest
  \<open>sha512(...).hexdigest()\<close>.
\<close>

record scan_env =
  yaml_load :: "string \<Rightarrow> exn + raw_blueprint option"
  from_dict :: "(string \<times> string) list \<Rightarrow> exn + BlueprintMetadata"
  sha512_bytes :: "string \<Rightarrow> string"

text \<open>\<open>s.startswith(p)\<close>.\<close>

definition startswith :: "string \<Rightarrow> string \<Rightarrow> bool" where
  "startswith s p = (take (length p) s = p)"

text \<open>
  The test of line 127, \<open>any(part for part in path.parts if part.startswith("."))\<close>:
  the generator yields the parts that start with a dot, and \<open>any\<close> asks for one that
  is not the empty string.
\<close>

definition hidden :: "string list \<Rightarrow> bool" where
  "hidden parts = list_ex (\<lambda>part. part \<noteq> []) (filter (\<lambda>part. startswith part ''.'') parts)"

text \<open>\<open>str(rel_path)\<close>: the parts joined by the separator.\<close>

fun str_path :: "string list \<Rightarrow> string" where
  "str_path [] = ''.''"
| "str_path [p] = p"
| "str_path (p # ps) = p @ ''/'' @ str_path ps"

text \<open>
  One turn of the loop of \<open>blueprints_find\<close> (lines 125-145): an exception that leaves
  the function, \<open>None\<close> for \<open>continue\<close>, or the descriptor that is appended.
\<close>

definition scan_file :: "scan_env \<Rightarrow> string list \<Rightarrow> candidate \<Rightarrow> exn + BlueprintFile option" where
  "scan_file env root_parts c =
    (let parts = root_parts @ rel_parts c;
         rel_path = rel_parts c in
     if hidden parts then Inr None
     else
       (case (case yaml_load env (file_bytes c) of
                Inl e \<Rightarrow> if e = YAMLError then Inr None else Inl e
              | Inr doc \<Rightarrow> Inr doc) of
         Inl e \<Rightarrow> Inl e
       | Inr None \<Rightarrow> Inr None
       | Inr (Some raw) \<Rightarrow>
           let metadata = raw_metadata raw;
               version = (case raw_version raw of Some v \<Rightarrow> v | None \<Rightarrow> 1) in
           if version \<noteq> 1 then Inr None
           else
             let file_hash = sha512_bytes env (file_bytes c);
                 blueprint = \<lparr>bf_path = str_path rel_path, bf_version = version,
                   bf_hash = file_hash, bf_last_m = st_mtime c, bf_meta = None\<rparr> in
             (case metadata of
               None \<Rightarrow> Inr (Some blueprint)
             | Some d \<Rightarrow>
                 if d = [] then Inr (Some blueprint)
                 else
                   (case from_dict env d of
                     Inl e \<Rightarrow> Inl e
                   | Inr m \<Rightarrow> Inr (Some (blueprint\<lparr>bf_meta := Some m\<rparr>))))))"

text \<open>\<open>blueprints_find\<close> (lines 120-146), over the candidates in the order of the walk.\<close>

fun blueprints_find_loop ::
  "scan_env \<Rightarrow> string list \<Rightarrow> candidate list \<Rightarrow> BlueprintFile list \<Rightarrow> exn + BlueprintFile list" where
  "blueprints_find_loop env root_parts [] blueprints = Inr blueprints"
| "blueprints_find_loop env root_parts (c # cs) blueprints =
    (case scan_file env root_parts c of
      Inl e \<Rightarrow> Inl e
    | Inr None \<Rightarrow> blueprints_find_loop env root_parts cs blueprints
    | Inr (Some blueprint) \<Rightarrow> blueprints_find_loop env root_parts cs (blueprints @ [blueprint]))"

definition blueprints_find :: "scan_env \<Rightarrow> string list \<Rightarrow> candidate list \<Rightarrow> exn + BlueprintFile list" where
  "blueprints_find env root_parts cs = blueprints_find_loop env root_parts cs []"

lemma startswith_dot: "startswith part ''.'' \<longleftrightarrow> (\<exists>t. part = CHR ''.'' # t)"
  by (cases part) (auto simp: startswith_def)

lemma hidden_iff: "hidden parts \<longleftrightarrow> (\<exists>part \<in> set parts. startswith part ''.'')"
  by (auto simp: hidden_def list_ex_iff startswith_dot)


lemma scan_file_hidden: "hidden (root_parts @ rel_parts c) \<Longrightarrow> scan_file env root_parts c = Inr None"
  by (simp add: scan_file_def)

lemma blueprints_find_loop_hidden:
  "hidden (root_parts @ rel_parts c) \<Longrightarrow>
    blueprints_find_loop env root_parts (c # cs) acc = blueprints_find_loop env root_parts cs acc"
  by (simp add: scan_file_hidden)

definition ex_scan_env :: scan_env where
  "ex_scan_env =
    \<lparr>yaml_load = (\<lambda>b. Inr (Some \<lparr>raw_metadata = None, raw_version = Some 1\<rparr>)),
     from_dict = (\<lambda>d. Inr \<lparr>meta_name = ''Example'', labels = d\<rparr>),
     sha512_bytes = (\<lambda>b. ''sha512:'' @ b)\<rparr>"

definition ex_candidate :: candidate where
  "ex_candidate =
    \<lparr>rel_parts = [''flows'', ''default.yaml''], file_bytes = ''version: 1'',
     st_mtime = 1700000000\<rparr>"

subsection \<open>Hidden paths\<close>

text \<open>
  Claim C8, as amended. The scan skips a candidate file for hiddenness exactly when some
  part of the file's whole path, the parts of the root followed by the parts of the path
  relative to the root, begins with a dot. Such a file adds nothing to the result. A file
  with no such part is not skipped for hiddenness: when its document loads, declares no
  version or version 1 and has no metadata, the scan gives its descriptor.
\<close>

theorem C8_hidden_whole_path:
  "(hidden (root_parts @ rel_parts c) \<longleftrightarrow>
      (\<exists>part \<in> set root_parts \<union> set (rel_parts c). \<exists>t. part = CHR ''.'' # t)) \<and>
   (hidden (root_parts @ rel_parts c) \<longrightarrow>
      scan_file env root_parts c = Inr None \<and>
      blueprints_find_loop env root_parts (c # cs) acc = blueprints_find_loop env root_parts cs acc) \<and>
   (\<not> hidden (root_parts @ rel_parts c) \<and> yaml_load env (file_bytes c) = Inr (Some raw) \<and>
      (raw_version raw = None \<or> raw_version raw = Some 1) \<and> raw_metadata raw = None \<longrightarrow>
      scan_file env root_parts c =
        Inr (Some \<lparr>bf_path = str_path (rel_parts c), bf_version = 1,
          bf_hash = sha512_bytes env (file_bytes c), bf_last_m = st_mtime c, bf_meta = None\<rparr>))"
proof (intro conjI impI)
  show "hidden (root_parts @ rel_parts c) \<longleftrightarrow>
      (\<exists>part \<in> set root_parts \<union> set (rel_parts c). \<exists>t. part = CHR ''.'' # t)"
    by (simp add: hidden_iff startswith_dot)
next
  assume "hidden (root_parts @ rel_parts c)"
  then show "scan_file env root_parts c = Inr None" by (rule scan_file_hidden)
next
  assume "hidden (root_parts @ rel_parts c)"
  then show "blueprints_find_loop env root_parts (c # cs) acc = blueprints_find_loop env root_parts cs acc"
    by (rule blueprints_find_loop_hidden)
next
  assume a: "\<not> hidden (root_parts @ rel_parts c) \<and> yaml_load env (file_bytes c) = Inr (Some raw) \<and>
      (raw_version raw = None \<or> raw_version raw = Some 1) \<and> raw_metadata raw = None"
  then show "scan_file env root_parts c =
        Inr (Some \<lparr>bf_path = str_path (rel_parts c), bf_version = 1,
          bf_hash = sha512_bytes env (file_bytes c), bf_last_m = st_mtime c, bf_meta = None\<rparr>)"
    by (auto simp: scan_file_def Let_def)
qed

theorem C8_hidden_whole_path_witness:
  "hidden ([''/'', ''blueprints''] @ [''.git'', ''hook.yaml'']) \<and>
   scan_file ex_scan_env [''/'', ''blueprints'']
     (ex_candidate\<lparr>rel_parts := [''.git'', ''hook.yaml'']\<rparr>) = Inr None \<and>
   \<not> hidden ([''/'', ''blueprints''] @ rel_parts ex_candidate) \<and>
   scan_file ex_scan_env [''/'', ''blueprints''] ex_candidate =
     Inr (Some \<lparr>bf_path = ''flows/default.yaml'', bf_version = 1,
       bf_hash = ''sha512:version: 1'', bf_last_m = 1700000000, bf_meta = None\<rparr>)"
proof -
  have h: "hidden ([''/'', ''blueprints''] @ [''.git'', ''hook.yaml''])"
    by (simp add: hidden_def startswith_def)
  have n: "\<not> hidden ([''/'', ''blueprints''] @ rel_parts ex_candidate)"
    by (simp add: hidden_def startswith_def ex_candidate_def)
  have l: "yaml_load ex_scan_env (file_bytes ex_candidate) =
      Inr (Some \<lparr>raw_metadata = None, raw_version = Some 1\<rparr>)"
    by (simp add: ex_scan_env_def)
  have a: "scan_file ex_scan_env [''/'', ''blueprints'']
     (ex_candidate\<lparr>rel_parts := [''.git'', ''hook.yaml'']\<rparr>) = Inr None"
    using C8_hidden_whole_path [of "[''/'', ''blueprints'']"
      "ex_candidate\<lparr>rel_parts := [''.git'', ''hook.yaml'']\<rparr>" ex_scan_env] h
    by simp
  have b: "scan_file ex_scan_env [''/'', ''blueprints''] ex_candidate =
     Inr (Some \<lparr>bf_path = str_path (rel_parts ex_candidate), bf_version = 1,
       bf_hash = sha512_bytes ex_scan_env (file_bytes ex_candidate),
       bf_last_m = st_mtime ex_candidate, bf_meta = None\<rparr>)"
    using C8_hidden_whole_path [of "[''/'', ''blueprints'']" ex_candidate ex_scan_env
      "[]" "[]" "\<lparr>raw_metadata = None, raw_version = Some 1\<rparr>"] n l
    by simp
  show ?thesis
    using h n a b by (simp add: ex_candidate_def ex_scan_env_def)
qed

text \<open>
  Claim C8 as stated, with the path relative to the root, does not hold when a part of
  the root begins with a dot: no part of the relative path does, and the file is skipped,
  while under a root without such a part the same file gives a descriptor.
\<close>

theorem C8_counterexample:
  "filter (\<lambda>part. startswith part ''.'') (rel_parts ex_candidate) = [] \<and>
   blueprints_find ex_scan_env [''/'', ''home'', ''authentik'', ''.local'', ''blueprints'']
     [ex_candidate] = Inr [] \<and>
   blueprints_find ex_scan_env [''/'', ''blueprints''] [ex_candidate] =
     Inr [\<lparr>bf_path = ''flows/default.yaml'', bf_version = 1,
       bf_hash = ''sha512:version: 1'', bf_last_m = 1700000000, bf_meta = None\<rparr>]"
  by (simp add: blueprints_find_def scan_file_def hidden_def startswith_def ex_candidate_def
      ex_scan_env_def)

section \<open>Identification stage (authentik/stages/identification/stage.py)\<close>

subsection \<open>Data model\<close>

text \<open>The exceptions that \<open>validate\<close> can end with.\<close>

datatype stage_exc =
    ValidationError string
  | PermissionDenied string
  | KeyError string
  | OtherException string

text \<open>
  A user. \<open>user_pk\<close> is \<open>None\<close> for an object that was built in memory and never saved,
  as the placeholder of lines 133-136 is.
\<close>

record User =
  user_pk :: "nat option"
  username :: string
  email :: string

record PasswordStage =
  backends :: "string list"
  allow_show_password :: bool

record CaptchaStage =
  public_key :: string
  interactive :: bool

text \<open>The fields of the stage's configuration that \<open>validate\<close>, \<open>get_user\<close> and
  \<open>challenge_valid\<close> read.\<close>

record IdentificationStage =
  user_fields :: "string list"
  case_insensitive_matching :: bool
  show_matched_user :: bool
  pretend_user_exists :: bool
  password_stage :: "PasswordStage option"
  captcha_stage :: "CaptchaStage option"

text \<open>
  The submitted data \<open>attrs\<close>: \<open>uid_field\<close> is required, \<open>password\<close> and
  \<open>captcha_token\<close> may be missing or null (\<open>None\<close>) or blank.
\<close>

record attrs =
  uid_field :: string
  password :: "string option"
  captcha_token :: "string option"

text \<open>
  A query object \<open>Q\<close>: the lookups it combines with \<open>|\<close>, each a lookup name such as
  \<open>username__iexact\<close> and the value looked for. The empty query is the one that is false
  as a condition (line 201).
\<close>

type_synonym Q = "(string \<times> string) list"

text \<open>What the stage does besides computing its result, in order.\<close>

datatype effect =
    UserQuery Q
  | Sleep rat
  | LogDebug string
  | LogInfo string
  | LogWarning string
  | IdentificationFailed string
  | VerifyCaptcha CaptchaStage "string option" string
  | Authenticate "string list" string "string option"

text \<open>
  The collaborators: the user store (\<open>User.objects.filter(query).first()\<close>), the random
  source (\<open>SystemRandom().randint\<close>), the captcha verification (\<open>None\<close> when it returns,
  the exception when it raises), the authentication (an exception, or the user or
  \<open>None\<close>), and the client address.
\<close>

record stage_env =
  filter_first :: "Q \<Rightarrow> User option"
  randint :: "int \<Rightarrow> int \<Rightarrow> int"
  verify_captcha_token :: "CaptchaStage \<Rightarrow> string option \<Rightarrow> string \<Rightarrow> stage_exc option"
  authenticate :: "string list \<Rightarrow> IdentificationStage \<Rightarrow> string \<Rightarrow> string option \<Rightarrow> stage_exc + User option"
  client_ip :: string

text \<open>The two keys of the flow plan's context that the stage writes.\<close>

record plan_context =
  PLAN_CONTEXT_PENDING_USER :: "User option"
  PLAN_CONTEXT_PENDING_USER_IDENTIFIER :: "string option"

text \<open>
  The state one attempt works on: the response's \<open>pre_user\<close>, the context of the flow
  plan, and the effects so far.
\<close>

record attempt_state =
  pre_user :: "User option"
  plan :: plan_context
  effects :: "effect list"

subsection \<open>get_user\<close>

text \<open>The dictionary of lines 191-195; a key that is missing raises \<open>KeyError\<close>.\<close>

definition model_fields :: "(string \<times> string) list" where
  "model_fields =
    [(''email'', ''email''), (''username'', ''username''), (''upn'', ''attributes__upn'')]"

text \<open>The loop of lines 190-200.\<close>

fun build_query :: "IdentificationStage \<Rightarrow> string \<Rightarrow> string list \<Rightarrow> Q \<Rightarrow> stage_exc + Q" where
  "build_query current_stage uid_value [] query = Inr query"
| "build_query current_stage uid_value (search_field # rest) query =
    (case map_of model_fields search_field of
      None \<Rightarrow> Inl (KeyError search_field)
    | Some model_field \<Rightarrow>
        build_query current_stage uid_value rest
          (query @
            [(model_field @
                (if case_insensitive_matching current_stage then ''__iexact'' else ''__exact''),
              uid_value)]))"

text \<open>\<open>get_user\<close> (lines 186-208), with the effects it adds.\<close>

definition get_user ::
  "stage_env \<Rightarrow> IdentificationStage \<Rightarrow> string \<Rightarrow> effect list
    \<Rightarrow> (stage_exc + User option) \<times> effect list" where
  "get_user env current_stage uid_value eff =
    (case build_query current_stage uid_value (user_fields current_stage) [] of
      Inl e \<Rightarrow> (Inl e, eff)
    | Inr query \<Rightarrow>
        if query = [] then (Inr None, eff @ [LogDebug ''Empty user query''])
        else
          (case filter_first env query of
            Some user \<Rightarrow> (Inr (Some user), eff @ [UserQuery query, LogDebug ''Found user''])
          | None \<Rightarrow> (Inr None, eff @ [UserQuery query])))"

subsection \<open>validate\<close>

text \<open>Python's test \<open>not x\<close> on an optional string: null or blank.\<close>

definition falsy :: "string option \<Rightarrow> bool" where
  "falsy x = (case x of None \<Rightarrow> True | Some v \<Rightarrow> v = [])"

text \<open>Lines 110-143: no user was found.\<close>

definition invalid_identifier ::
  "stage_env \<Rightarrow> IdentificationStage \<Rightarrow> attrs \<Rightarrow> attempt_state \<Rightarrow> (stage_exc + attrs) \<times> attempt_state" where
  "invalid_identifier env current_stage a s =
    (let uid = uid_field a;
         s1 = s\<lparr>effects := effects s @
           [Sleep (30 / 1000 * of_int (randint env 3 7)),
            LogInfo ''invalid_login'',
            IdentificationFailed uid]\<rparr>;
         placeholder = \<lparr>user_pk = None, username = uid, email = uid\<rparr>;
         s2 = s1\<lparr>plan := (plan s1)\<lparr>PLAN_CONTEXT_PENDING_USER := Some placeholder\<rparr>,
                pre_user := Some placeholder\<rparr>;
         s3 = (if \<not> show_matched_user current_stage
               then s2\<lparr>plan := (plan s2)\<lparr>PLAN_CONTEXT_PENDING_USER_IDENTIFIER := Some uid\<rparr>\<rparr>
               else s2)
     in if pretend_user_exists current_stage \<and> password_stage current_stage = None
        then (Inr a, s3)
        else (Inl (ValidationError ''Failed to authenticate.''), s3))"

text \<open>Lines 146-151: the captcha check. \<open>None\<close> when the check lets the attempt go on.\<close>

definition captcha_check ::
  "stage_env \<Rightarrow> IdentificationStage \<Rightarrow> attrs \<Rightarrow> attempt_state \<Rightarrow> stage_exc option \<times> attempt_state" where
  "captcha_check env current_stage a s =
    (case captcha_stage current_stage of
      None \<Rightarrow> (None, s)
    | Some captcha \<Rightarrow>
        let token = captcha_token a;
            s1 = (if falsy token
                  then s\<lparr>effects := effects s @ [LogWarning ''Token not set for captcha attempt'']\<rparr>
                  else s);
            s2 = s1\<lparr>effects := effects s1 @ [VerifyCaptcha captcha token (client_ip env)]\<rparr>
        in (verify_captcha_token env captcha token (client_ip env), s2))"

text \<open>Lines 153-178: the password check, for the user that was found.\<close>

definition password_check ::
  "stage_env \<Rightarrow> IdentificationStage \<Rightarrow> attrs \<Rightarrow> User \<Rightarrow> attempt_state
    \<Rightarrow> (stage_exc + attrs) \<times> attempt_state" where
  "password_check env current_stage a found s =
    (case password_stage current_stage of
      None \<Rightarrow> (Inr a, s)
    | Some pw_stage \<Rightarrow>
        let pw = password a;
            s1 = (if falsy pw
                  then s\<lparr>effects := effects s @ [LogWarning ''Password not set for ident+auth attempt'']\<rparr>
                  else s);
            s2 = s1\<lparr>effects := effects s1 @ [Authenticate (backends pw_stage) (username found) pw]\<rparr>
        in
          (case authenticate env (backends pw_stage) current_stage (username found) pw of
            Inl exc \<Rightarrow>
              (case exc of
                PermissionDenied msg \<Rightarrow> (Inl (ValidationError msg), s2)
              | _ \<Rightarrow> (Inl exc, s2))
          | Inr None \<Rightarrow> (Inl (ValidationError ''Failed to authenticate.''), s2)
          | Inr (Some user) \<Rightarrow> (Inr a, s2\<lparr>pre_user := Some user\<rparr>)))"

text \<open>\<open>IdentificationChallengeResponse.validate\<close> (lines 103-178).\<close>

definition validate ::
  "stage_env \<Rightarrow> IdentificationStage \<Rightarrow> attrs \<Rightarrow> attempt_state \<Rightarrow> (stage_exc + attrs) \<times> attempt_state" where
  "validate env current_stage a s =
    (case get_user env current_stage (uid_field a) (effects s) of
      (Inl e, eff) \<Rightarrow> (Inl e, s\<lparr>effects := eff\<rparr>)
    | (Inr None, eff) \<Rightarrow> invalid_identifier env current_stage a (s\<lparr>effects := eff\<rparr>)
    | (Inr (Some found), eff) \<Rightarrow>
        let s1 = s\<lparr>effects := eff, pre_user := Some found\<rparr> in
        (case captcha_check env current_stage a s1 of
          (Some e, s2) \<Rightarrow> (Inl e, s2)
        | (None, s2) \<Rightarrow> password_check env current_stage a found s2))"

subsection \<open>challenge_valid\<close>

text \<open>
  \<open>challenge_valid\<close> (lines 285-292), for the response that \<open>validate\<close> accepted:
  \<open>validated_data\<close> is the data that \<open>validate\<close> returned.
\<close>

definition challenge_valid :: "IdentificationStage \<Rightarrow> attrs \<Rightarrow> attempt_state \<Rightarrow> attempt_state" where
  "challenge_valid current_stage validated_data s =
    (let s1 = s\<lparr>plan := (plan s)\<lparr>PLAN_CONTEXT_PENDING_USER := pre_user s\<rparr>\<rparr>
     in if \<not> show_matched_user current_stage
        then s1\<lparr>plan := (plan s1)\<lparr>PLAN_CONTEXT_PENDING_USER_IDENTIFIER :=
          Some (uid_field validated_data)\<rparr>\<rparr>
        else s1)"

subsection \<open>Reading the effects\<close>

fun is_verify :: "effect \<Rightarrow> bool" where
  "is_verify (VerifyCaptcha c t ip) = True"
| "is_verify _ = False"

fun is_query :: "effect \<Rightarrow> bool" where
  "is_query (UserQuery q) = True"
| "is_query _ = False"

fun sleep_of :: "effect \<Rightarrow> rat" where
  "sleep_of (Sleep d) = d"
| "sleep_of _ = 0"

text \<open>The calls of the captcha collaborator, the queries on the user store, and the
  time slept in all, in seconds.\<close>

definition captcha_calls :: "effect list \<Rightarrow> effect list" where
  "captcha_calls eff = filter is_verify eff"

definition user_queries :: "effect list \<Rightarrow> effect list" where
  "user_queries eff = filter is_query eff"

definition slept :: "effect list \<Rightarrow> rat" where
  "slept eff = sum_list (map sleep_of eff)"

lemma get_user_append:
  "get_user env cs uid eff = (fst (get_user env cs uid []), eff @ snd (get_user env cs uid []))"
  by (simp add: get_user_def split: sum.splits option.splits)

lemma get_user_quiet:
  "captcha_calls (snd (get_user env cs uid [])) = []"
  "slept (snd (get_user env cs uid [])) = 0"
  by (simp_all add: get_user_def captcha_calls_def slept_def split: sum.splits option.splits)

lemma get_user_empty_fields:
  "user_fields cs = [] \<Longrightarrow> get_user env cs uid eff = (Inr None, eff @ [LogDebug ''Empty user query''])"
  by (simp add: get_user_def)

lemma validate_no_user:
  assumes "fst (get_user env cs (uid_field a) (effects s)) = Inr None"
  shows "validate env cs a s =
    invalid_identifier env cs a (s\<lparr>effects := snd (get_user env cs (uid_field a) (effects s))\<rparr>)"
  using assms by (cases "get_user env cs (uid_field a) (effects s)") (simp add: validate_def)

lemma validate_error:
  assumes "fst (get_user env cs (uid_field a) (effects s)) = Inl e"
  shows "validate env cs a s =
    (Inl e, s\<lparr>effects := snd (get_user env cs (uid_field a) (effects s))\<rparr>)"
  using assms by (cases "get_user env cs (uid_field a) (effects s)") (simp add: validate_def)

lemma validate_found:
  assumes "fst (get_user env cs (uid_field a) (effects s)) = Inr (Some u)"
  shows "validate env cs a s =
    (case captcha_check env cs a
        (s\<lparr>effects := snd (get_user env cs (uid_field a) (effects s)), pre_user := Some u\<rparr>) of
      (Some e, s2) \<Rightarrow> (Inl e, s2)
    | (None, s2) \<Rightarrow> password_check env cs a u s2)"
  using assms by (cases "get_user env cs (uid_field a) (effects s)") (simp add: validate_def)

lemma invalid_identifier_effects:
  "effects (snd (invalid_identifier env cs a s)) =
    effects s @ [Sleep (30 / 1000 * of_int (randint env 3 7)), LogInfo ''invalid_login'',
      IdentificationFailed (uid_field a)]"
  by (simp add: invalid_identifier_def Let_def)

lemma invalid_identifier_result:
  "fst (invalid_identifier env cs a s) =
    (if pretend_user_exists cs \<and> password_stage cs = None then Inr a
     else Inl (ValidationError ''Failed to authenticate.''))"
  by (simp add: invalid_identifier_def Let_def)

lemma invalid_identifier_state:
  "pre_user (snd (invalid_identifier env cs a s)) =
    Some \<lparr>user_pk = None, username = uid_field a, email = uid_field a\<rparr>"
  "plan (snd (invalid_identifier env cs a s)) =
    \<lparr>PLAN_CONTEXT_PENDING_USER =
       Some \<lparr>user_pk = None, username = uid_field a, email = uid_field a\<rparr>,
     PLAN_CONTEXT_PENDING_USER_IDENTIFIER =
       (if \<not> show_matched_user cs then Some (uid_field a)
        else PLAN_CONTEXT_PENDING_USER_IDENTIFIER (plan s))\<rparr>"
  by (simp_all add: invalid_identifier_def Let_def)

lemma captcha_calls_append [simp]: "captcha_calls (xs @ ys) = captcha_calls xs @ captcha_calls ys"
  by (simp add: captcha_calls_def)

lemma user_queries_append [simp]: "user_queries (xs @ ys) = user_queries xs @ user_queries ys"
  by (simp add: user_queries_def)

lemma slept_append [simp]: "slept (xs @ ys) = slept xs + slept ys"
  by (simp add: slept_def)

lemma draw_cases: "3 \<le> (k::int) \<Longrightarrow> k \<le> 7 \<Longrightarrow> k = 3 \<or> k = 4 \<or> k = 5 \<or> k = 6 \<or> k = 7"
  by arith

subsection \<open>The delay on an identifier that matches no user\<close>

text \<open>
  Claim C3. When the submitted identifier matches no user, \<open>validate\<close> sleeps once before
  it answers, after the lookup and before the log entry and the signal: 0.030 seconds
  times the draw of \<open>randint(3, 7)\<close>. For a draw between 3 and 7 the delay is one of 90, 120,
  150, 180 and 210 milliseconds, so the time slept in the attempt grows by at least 90 and
  at most 210 milliseconds. The five draws give the five delays one to one, so a uniform
  draw gives a uniform delay.
\<close>

theorem C3_invalid_identifier_sleep:
  assumes nu: "fst (get_user env cs (uid_field a) (effects s)) = Inr None"
    and lo: "3 \<le> randint env 3 7" and hi: "randint env 3 7 \<le> 7"
  shows "effects (snd (validate env cs a s)) =
      snd (get_user env cs (uid_field a) (effects s)) @
        [Sleep (30 / 1000 * of_int (randint env 3 7)), LogInfo ''invalid_login'',
         IdentificationFailed (uid_field a)] \<and>
    slept (effects (snd (validate env cs a s))) =
      slept (effects s) + 30 / 1000 * of_int (randint env 3 7) \<and>
    1000 * (30 / 1000 * of_int (randint env 3 7)) \<in> {90, 120, 150, 180, 210 :: rat} \<and>
    (\<lambda>k. 1000 * (30 / 1000 * of_int k)) ` {3 .. 7 :: int} = {90, 120, 150, 180, 210 :: rat} \<and>
    inj_on (\<lambda>k. 1000 * (30 / 1000 * of_int k) :: rat) {3 .. 7 :: int}"
proof (intro conjI)
  show e: "effects (snd (validate env cs a s)) =
      snd (get_user env cs (uid_field a) (effects s)) @
        [Sleep (30 / 1000 * of_int (randint env 3 7)), LogInfo ''invalid_login'',
         IdentificationFailed (uid_field a)]"
    by (simp add: validate_no_user [OF nu] invalid_identifier_effects)
  have "snd (get_user env cs (uid_field a) (effects s)) =
      effects s @ snd (get_user env cs (uid_field a) [])"
    by (subst get_user_append) simp
  then show "slept (effects (snd (validate env cs a s))) =
      slept (effects s) + 30 / 1000 * of_int (randint env 3 7)"
    by (simp add: e get_user_quiet) (simp add: slept_def)
  show "1000 * (30 / 1000 * of_int (randint env 3 7)) \<in> {90, 120, 150, 180, 210 :: rat}"
    using draw_cases [OF lo hi] by auto
  have r: "{3 .. 7 :: int} = {3, 4, 5, 6, 7}" by auto
  show "(\<lambda>k. 1000 * (30 / 1000 * of_int k)) ` {3 .. 7 :: int} = {90, 120, 150, 180, 210 :: rat}"
    unfolding r by simp
  show "inj_on (\<lambda>k. 1000 * (30 / 1000 * of_int k) :: rat) {3 .. 7 :: int}"
    by (rule inj_onI) simp
qed

subsection \<open>Example values\<close>

definition ex_alice :: User where
  "ex_alice = \<lparr>user_pk = Some 1, username = ''alice'', email = ''alice@example.org''\<rparr>"

definition ex_stage_env :: stage_env where
  "ex_stage_env =
    \<lparr>filter_first = (\<lambda>q. if (''username__exact'', ''alice'') \<in> set q then Some ex_alice else None),
     randint = (\<lambda>lo hi. 5),
     verify_captcha_token = (\<lambda>c t ip. if t = Some ''good-token'' then None
        else Some (ValidationError ''Invalid captcha response'')),
     authenticate = (\<lambda>b st u p. if u = ''alice'' \<and> p = Some ''correct horse''
        then Inr (Some ex_alice) else Inr None),
     client_ip = ''203.0.113.9''\<rparr>"

definition ex_stage :: IdentificationStage where
  "ex_stage =
    \<lparr>user_fields = [''username''], case_insensitive_matching = False,
     show_matched_user = False, pretend_user_exists = False,
     password_stage = None, captcha_stage = None\<rparr>"

definition ex_pw_stage :: PasswordStage where
  "ex_pw_stage = \<lparr>backends = [''authentik.core.auth.InbuiltBackend''], allow_show_password = False\<rparr>"

definition ex_captcha :: CaptchaStage where
  "ex_captcha = \<lparr>public_key = ''site-key'', interactive = False\<rparr>"

definition ex_start :: attempt_state where
  "ex_start =
    \<lparr>pre_user = None,
     plan = \<lparr>PLAN_CONTEXT_PENDING_USER = None, PLAN_CONTEXT_PENDING_USER_IDENTIFIER = None\<rparr>,
     effects = []\<rparr>"

definition ex_attrs :: "string \<Rightarrow> attrs" where
  "ex_attrs uid = \<lparr>uid_field = uid, password = None, captcha_token = None\<rparr>"

lemmas ex_stage_defs = ex_alice_def ex_stage_env_def ex_stage_def ex_pw_stage_def ex_captcha_def
  ex_start_def ex_attrs_def

lemmas stage_defs = validate_def get_user_def model_fields_def invalid_identifier_def
  captcha_check_def password_check_def challenge_valid_def falsy_def Let_def

theorem C3_invalid_identifier_sleep_witness:
  "fst (get_user ex_stage_env ex_stage ''mallory'' []) = Inr None \<and>
   fst (validate ex_stage_env ex_stage (ex_attrs ''mallory'') ex_start) =
     Inl (ValidationError ''Failed to authenticate.'') \<and>
   effects (snd (validate ex_stage_env ex_stage (ex_attrs ''mallory'') ex_start)) =
     [UserQuery [(''username__exact'', ''mallory'')], Sleep (150 / 1000),
      LogInfo ''invalid_login'', IdentificationFailed ''mallory''] \<and>
   slept (effects (snd (validate ex_stage_env ex_stage (ex_attrs ''mallory'') ex_start))) = 150 / 1000"
proof -
  have nu: "fst (get_user ex_stage_env ex_stage (uid_field (ex_attrs ''mallory'')) (effects ex_start)) = Inr None"
    by (simp add: stage_defs ex_stage_defs)
  have lo: "3 \<le> randint ex_stage_env 3 7" and hi: "randint ex_stage_env 3 7 \<le> 7"
    by (simp_all add: ex_stage_env_def)
  have g: "get_user ex_stage_env ex_stage ''mallory'' [] =
      (Inr None, [UserQuery [(''username__exact'', ''mallory'')]])"
    by (simp add: stage_defs ex_stage_defs)
  have r: "fst (validate ex_stage_env ex_stage (ex_attrs ''mallory'') ex_start) =
     Inl (ValidationError ''Failed to authenticate.'')"
    by (simp add: stage_defs ex_stage_defs)
  have s0: "slept (effects ex_start) = 0" by (simp add: ex_start_def slept_def)
  have u: "uid_field (ex_attrs ''mallory'') = ''mallory''" by (simp add: ex_attrs_def)
  have e0: "effects ex_start = []" by (simp add: ex_start_def)
  have rd: "randint ex_stage_env 3 7 = 5" by (simp add: ex_stage_env_def)
  from C3_invalid_identifier_sleep [OF nu lo hi] g r show ?thesis
    by (simp add: u e0 rd slept_def)
qed

lemma captcha_check_calls:
  "captcha_calls (effects (snd (captcha_check env cs a s))) =
    captcha_calls (effects s) @
      (case captcha_stage cs of None \<Rightarrow> []
       | Some c \<Rightarrow> [VerifyCaptcha c (captcha_token a) (client_ip env)])"
  by (simp add: captcha_check_def Let_def captcha_calls_def split: option.splits)

lemma captcha_check_state:
  "pre_user (snd (captcha_check env cs a s)) = pre_user s"
  "plan (snd (captcha_check env cs a s)) = plan s"
  by (simp_all add: captcha_check_def Let_def split: option.splits)

lemma captcha_check_result:
  "fst (captcha_check env cs a s) =
    (case captcha_stage cs of None \<Rightarrow> None
     | Some c \<Rightarrow> verify_captcha_token env c (captcha_token a) (client_ip env))"
  by (simp add: captcha_check_def Let_def split: option.splits)

lemma password_check_calls:
  "captcha_calls (effects (snd (password_check env cs a u s))) = captcha_calls (effects s)"
  by (simp add: password_check_def Let_def captcha_calls_def
      split: option.splits sum.splits stage_exc.splits)

lemma password_check_none:
  "password_stage cs = None \<Longrightarrow> password_check env cs a u s = (Inr a, s)"
  by (simp add: password_check_def)

lemma password_check_result:
  "password_stage cs = Some ps \<Longrightarrow>
    fst (password_check env cs a u s) =
      (case authenticate env (backends ps) cs (username u) (password a) of
        Inl (PermissionDenied msg) \<Rightarrow> Inl (ValidationError msg)
      | Inl e \<Rightarrow> Inl e
      | Inr None \<Rightarrow> Inl (ValidationError ''Failed to authenticate.'')
      | Inr (Some user) \<Rightarrow> Inr a)"
  by (simp add: password_check_def Let_def split: option.splits sum.splits stage_exc.splits)

lemma password_check_accepts:
  assumes "password_check env cs a u s = (Inr a', s')"
  shows "a' = a \<and> plan s' = plan s \<and>
    (case password_stage cs of
      None \<Rightarrow> pre_user s' = pre_user s
    | Some ps \<Rightarrow> pre_user s' \<noteq> None \<and>
        authenticate env (backends ps) cs (username u) (password a) = Inr (pre_user s'))"
  using assms
  by (auto simp: password_check_def Let_def split: option.splits sum.splits stage_exc.splits if_splits)

lemma validate_accepts_found:
  assumes found: "fst (get_user env cs (uid_field a) (effects s)) = Inr (Some u)"
    and ok: "validate env cs a s = (Inr a', s')"
  shows "a' = a \<and> plan s' = plan s \<and>
    (case password_stage cs of
      None \<Rightarrow> pre_user s' = Some u
    | Some ps \<Rightarrow> pre_user s' \<noteq> None \<and>
        authenticate env (backends ps) cs (username u) (password a) = Inr (pre_user s'))"
proof -
  let ?s1 = "s\<lparr>effects := snd (get_user env cs (uid_field a) (effects s)), pre_user := Some u\<rparr>"
  obtain c s2 where c: "captcha_check env cs a ?s1 = (c, s2)"
    by (cases "captcha_check env cs a ?s1") auto
  have s2: "pre_user s2 = Some u" "plan s2 = plan s"
    using captcha_check_state [of env cs a ?s1] c by simp_all
  from ok have p: "c = None \<and> password_check env cs a u s2 = (Inr a', s')"
    unfolding validate_found [OF found] c by (cases c) auto
  from password_check_accepts [of env cs a u s2 a' s'] p s2 show ?thesis
    by (auto split: option.splits)
qed

subsection \<open>The flow context after a match\<close>

text \<open>
  Claim C1, as amended. When the stage is configured with \<open>show_matched_user = false\<close>,
  the submitted identifier matches a user and the attempt is accepted, the context of
  the flow plan holds the raw identifier under the pending-user-identifier key and, under
  the pending-user key, the user object of the response: the user that was matched, or
  with a password stage the user that the authentication returned.
\<close>

theorem C1_context_after_match:
  assumes nshow: "\<not> show_matched_user cs"
    and found: "fst (get_user env cs (uid_field a) (effects s)) = Inr (Some u)"
    and ok: "validate env cs a s = (Inr a', s')"
  shows "plan (challenge_valid cs a' s') =
      \<lparr>PLAN_CONTEXT_PENDING_USER = pre_user s',
       PLAN_CONTEXT_PENDING_USER_IDENTIFIER = Some (uid_field a)\<rparr> \<and>
    pre_user s' \<noteq> None \<and>
    (case password_stage cs of
      None \<Rightarrow> pre_user s' = Some u
    | Some ps \<Rightarrow> authenticate env (backends ps) cs (username u) (password a) = Inr (pre_user s'))"
proof -
  from validate_accepts_found [OF found ok]
  have a: "a' = a" and p: "case password_stage cs of
      None \<Rightarrow> pre_user s' = Some u
    | Some ps \<Rightarrow> pre_user s' \<noteq> None \<and>
        authenticate env (backends ps) cs (username u) (password a) = Inr (pre_user s')"
    by simp_all
  have "plan (challenge_valid cs a' s') =
      \<lparr>PLAN_CONTEXT_PENDING_USER = pre_user s',
       PLAN_CONTEXT_PENDING_USER_IDENTIFIER = Some (uid_field a)\<rparr>"
    by (simp add: challenge_valid_def Let_def nshow a)
  then show ?thesis using p by (auto split: option.splits)
qed

theorem C1_context_after_match_witness:
  "\<not> show_matched_user ex_stage \<and>
   fst (get_user ex_stage_env ex_stage ''alice'' []) = Inr (Some ex_alice) \<and>
   fst (validate ex_stage_env ex_stage (ex_attrs ''alice'') ex_start) = Inr (ex_attrs ''alice'') \<and>
   plan (challenge_valid ex_stage (ex_attrs ''alice'')
       (snd (validate ex_stage_env ex_stage (ex_attrs ''alice'') ex_start))) =
     \<lparr>PLAN_CONTEXT_PENDING_USER = Some ex_alice,
      PLAN_CONTEXT_PENDING_USER_IDENTIFIER = Some ''alice''\<rparr>"
proof -
  have n: "\<not> show_matched_user ex_stage" by (simp add: ex_stage_def)
  have u: "uid_field (ex_attrs ''alice'') = ''alice''" by (simp add: ex_attrs_def)
  have e: "effects ex_start = []" by (simp add: ex_start_def)
  have g: "fst (get_user ex_stage_env ex_stage ''alice'' []) = Inr (Some ex_alice)"
    by (simp add: stage_defs ex_stage_env_def ex_stage_def)
  have f: "fst (get_user ex_stage_env ex_stage (uid_field (ex_attrs ''alice'')) (effects ex_start)) =
      Inr (Some ex_alice)"
    using g by (simp add: u e)
  have v: "fst (validate ex_stage_env ex_stage (ex_attrs ''alice'') ex_start) = Inr (ex_attrs ''alice'')"
    by (simp add: stage_defs ex_stage_env_def ex_stage_def ex_start_def ex_attrs_def)
  then have ok: "validate ex_stage_env ex_stage (ex_attrs ''alice'') ex_start =
      (Inr (ex_attrs ''alice''), snd (validate ex_stage_env ex_stage (ex_attrs ''alice'') ex_start))"
    by (metis prod.collapse)
  have p: "password_stage ex_stage = None" by (simp add: ex_stage_def)
  from C1_context_after_match [OF n f ok] n g v show ?thesis
    by (simp add: p u)
qed

text \<open>
  Claim C1 as stated says that the context does not hold the resolved user object. It
  does: after the accepted attempt the pending-user key holds the stored user that the
  identifier matched (its primary key is set), beside the raw identifier.
\<close>

theorem C1_counterexample:
  "show_matched_user ex_stage = False \<and>
   fst (get_user ex_stage_env ex_stage ''alice'' []) = Inr (Some ex_alice) \<and>
   fst (validate ex_stage_env ex_stage (ex_attrs ''alice'') ex_start) = Inr (ex_attrs ''alice'') \<and>
   PLAN_CONTEXT_PENDING_USER (plan (challenge_valid ex_stage (ex_attrs ''alice'')
       (snd (validate ex_stage_env ex_stage (ex_attrs ''alice'') ex_start)))) =
     Some \<lparr>user_pk = Some 1, username = ''alice'', email = ''alice@example.org''\<rparr> \<and>
   PLAN_CONTEXT_PENDING_USER_IDENTIFIER (plan (challenge_valid ex_stage (ex_attrs ''alice'')
       (snd (validate ex_stage_env ex_stage (ex_attrs ''alice'') ex_start)))) = Some ''alice''"
  by (simp add: stage_defs ex_stage_defs)

lemma validate_found_calls:
  assumes found: "fst (get_user env cs (uid_field a) (effects s)) = Inr (Some u)"
  shows "captcha_calls (effects (snd (validate env cs a s))) =
    captcha_calls (effects s) @
      (case captcha_stage cs of None \<Rightarrow> []
       | Some c \<Rightarrow> [VerifyCaptcha c (captcha_token a) (client_ip env)])"
proof -
  let ?s1 = "s\<lparr>effects := snd (get_user env cs (uid_field a) (effects s)), pre_user := Some u\<rparr>"
  obtain c s2 where c: "captcha_check env cs a ?s1 = (c, s2)"
    by (cases "captcha_check env cs a ?s1") auto
  have g: "captcha_calls (snd (get_user env cs (uid_field a) (effects s))) = captcha_calls (effects s)"
    by (subst get_user_append) (simp add: get_user_quiet)
  have s2: "captcha_calls (effects s2) =
    captcha_calls (effects s) @
      (case captcha_stage cs of None \<Rightarrow> []
       | Some c \<Rightarrow> [VerifyCaptcha c (captcha_token a) (client_ip env)])"
    using captcha_check_calls [of env cs a ?s1] c g by simp
  show ?thesis
    unfolding validate_found [OF found] c
    by (cases c) (simp_all add: s2 password_check_calls)
qed

lemma validate_not_found_calls:
  assumes "\<And>u. fst (get_user env cs (uid_field a) (effects s)) \<noteq> Inr (Some u)"
  shows "captcha_calls (effects (snd (validate env cs a s))) = captcha_calls (effects s)"
proof -
  have g: "captcha_calls (snd (get_user env cs (uid_field a) (effects s))) = captcha_calls (effects s)"
    by (subst get_user_append) (simp add: get_user_quiet)
  show ?thesis
  proof (cases "fst (get_user env cs (uid_field a) (effects s))")
    case (Inl e)
    then show ?thesis by (simp add: validate_error g)
  next
    case (Inr r)
    with assms have "fst (get_user env cs (uid_field a) (effects s)) = Inr None"
      by (cases r) auto
    then show ?thesis
      by (simp add: validate_no_user invalid_identifier_effects g) (simp add: captcha_calls_def)
  qed
qed

subsection \<open>The captcha check comes after the match\<close>

text \<open>
  Claim C10. When the submitted identifier resolves to no user, \<open>validate\<close> does not call
  the captcha verification, whatever the captcha stage and the submitted token are. A
  call of the verification in an attempt means that a user was matched; with a user
  matched and a captcha stage configured the verification is called once.
\<close>

theorem C10_no_captcha_without_user:
  "(fst (get_user env cs (uid_field a) (effects s)) = Inr None \<longrightarrow>
      captcha_calls (effects (snd (validate env cs a s))) = captcha_calls (effects s)) \<and>
   (captcha_calls (effects (snd (validate env cs a s))) \<noteq> captcha_calls (effects s) \<longrightarrow>
      (\<exists>u. fst (get_user env cs (uid_field a) (effects s)) = Inr (Some u))) \<and>
   (\<forall>u c. fst (get_user env cs (uid_field a) (effects s)) = Inr (Some u) \<and>
      captcha_stage cs = Some c \<longrightarrow>
      captcha_calls (effects (snd (validate env cs a s))) =
        captcha_calls (effects s) @ [VerifyCaptcha c (captcha_token a) (client_ip env)])"
proof (intro conjI impI allI)
  assume "fst (get_user env cs (uid_field a) (effects s)) = Inr None"
  then show "captcha_calls (effects (snd (validate env cs a s))) = captcha_calls (effects s)"
    by (intro validate_not_found_calls) simp
next
  assume n: "captcha_calls (effects (snd (validate env cs a s))) \<noteq> captcha_calls (effects s)"
  show "\<exists>u. fst (get_user env cs (uid_field a) (effects s)) = Inr (Some u)"
  proof (rule ccontr)
    assume "\<nexists>u. fst (get_user env cs (uid_field a) (effects s)) = Inr (Some u)"
    then have "captcha_calls (effects (snd (validate env cs a s))) = captcha_calls (effects s)"
      by (intro validate_not_found_calls) simp
    with n show False by simp
  qed
next
  fix u c
  assume "fst (get_user env cs (uid_field a) (effects s)) = Inr (Some u) \<and> captcha_stage cs = Some c"
  then show "captcha_calls (effects (snd (validate env cs a s))) =
        captcha_calls (effects s) @ [VerifyCaptcha c (captcha_token a) (client_ip env)]"
    using validate_found_calls [of env cs a s u] by simp
qed

theorem C10_no_captcha_without_user_witness:
  "fst (get_user ex_stage_env (ex_stage\<lparr>captcha_stage := Some ex_captcha\<rparr>) ''mallory'' []) = Inr None \<and>
   captcha_calls (effects (snd (validate ex_stage_env (ex_stage\<lparr>captcha_stage := Some ex_captcha\<rparr>)
     ((ex_attrs ''mallory'')\<lparr>captcha_token := Some ''good-token''\<rparr>) ex_start))) = [] \<and>
   captcha_calls (effects (snd (validate ex_stage_env (ex_stage\<lparr>captcha_stage := Some ex_captcha\<rparr>)
     ((ex_attrs ''alice'')\<lparr>captcha_token := Some ''good-token''\<rparr>) ex_start))) =
     [VerifyCaptcha ex_captcha (Some ''good-token'') ''203.0.113.9'']"
proof -
  let ?cs = "ex_stage\<lparr>captcha_stage := Some ex_captcha\<rparr>"
  let ?m = "(ex_attrs ''mallory'')\<lparr>captcha_token := Some ''good-token''\<rparr>"
  let ?a = "(ex_attrs ''alice'')\<lparr>captcha_token := Some ''good-token''\<rparr>"
  have gm: "fst (get_user ex_stage_env ?cs ''mallory'' []) = Inr None"
    by (simp add: stage_defs ex_stage_env_def ex_stage_def)
  have ga: "fst (get_user ex_stage_env ?cs ''alice'' []) = Inr (Some ex_alice)"
    by (simp add: stage_defs ex_stage_env_def ex_stage_def)
  have e: "effects ex_start = []" "uid_field ?m = ''mallory''" "uid_field ?a = ''alice''"
    "captcha_stage ?cs = Some ex_captcha" "captcha_token ?a = Some ''good-token''"
    "client_ip ex_stage_env = ''203.0.113.9''" "captcha_calls [] = []"
    by (simp_all add: ex_start_def ex_attrs_def ex_stage_env_def captcha_calls_def)
  have m: "captcha_calls (effects (snd (validate ex_stage_env ?cs ?m ex_start))) = []"
    using C10_no_captcha_without_user [of ex_stage_env ?cs ?m ex_start] gm by (simp add: e)
  have a: "captcha_calls (effects (snd (validate ex_stage_env ?cs ?a ex_start))) =
     [VerifyCaptcha ex_captcha (Some ''good-token'') ''203.0.113.9'']"
    using C10_no_captcha_without_user [of ex_stage_env ?cs ?a ex_start] ga by (simp add: e)
  show ?thesis using gm m a by simp
qed

subsection \<open>An empty configuration of user fields\<close>

text \<open>
  Claim C9, as amended. When the stage's list of user fields is empty, \<open>validate\<close> issues
  no query on the user store: it logs the empty query, sleeps the random delay, logs and
  signals the failure. It writes the placeholder user, built from the submitted
  identifier, as the response's user and as the pending user of the flow context, and
  the raw identifier beside it when the stage does not show the matched user. The
  attempt is then rejected with the generic failure, unless the stage is configured to
  pretend that the user exists and has no password stage: then it is accepted.
\<close>

theorem C9_empty_user_fields:
  assumes "user_fields cs = []"
  shows "effects (snd (validate env cs a s)) =
      effects s @ [LogDebug ''Empty user query'', Sleep (30 / 1000 * of_int (randint env 3 7)),
        LogInfo ''invalid_login'', IdentificationFailed (uid_field a)] \<and>
    user_queries (effects (snd (validate env cs a s))) = user_queries (effects s) \<and>
    fst (validate env cs a s) =
      (if pretend_user_exists cs \<and> password_stage cs = None then Inr a
       else Inl (ValidationError ''Failed to authenticate.'')) \<and>
    pre_user (snd (validate env cs a s)) =
      Some \<lparr>user_pk = None, username = uid_field a, email = uid_field a\<rparr> \<and>
    plan (snd (validate env cs a s)) =
      \<lparr>PLAN_CONTEXT_PENDING_USER =
         Some \<lparr>user_pk = None, username = uid_field a, email = uid_field a\<rparr>,
       PLAN_CONTEXT_PENDING_USER_IDENTIFIER =
         (if \<not> show_matched_user cs then Some (uid_field a)
          else PLAN_CONTEXT_PENDING_USER_IDENTIFIER (plan s))\<rparr>"
proof -
  have g: "get_user env cs (uid_field a) (effects s) =
      (Inr None, effects s @ [LogDebug ''Empty user query''])"
    using assms by (rule get_user_empty_fields)
  then have n: "fst (get_user env cs (uid_field a) (effects s)) = Inr None" by simp
  have e: "effects (snd (validate env cs a s)) =
      effects s @ [LogDebug ''Empty user query'', Sleep (30 / 1000 * of_int (randint env 3 7)),
        LogInfo ''invalid_login'', IdentificationFailed (uid_field a)]"
    by (simp add: validate_no_user [OF n] invalid_identifier_effects g)
  have q: "user_queries (effects (snd (validate env cs a s))) = user_queries (effects s)"
    unfolding e by (simp add: user_queries_def)
  have r: "fst (validate env cs a s) =
      (if pretend_user_exists cs \<and> password_stage cs = None then Inr a
       else Inl (ValidationError ''Failed to authenticate.''))"
    by (simp add: validate_no_user [OF n] invalid_identifier_result)
  have p: "pre_user (snd (validate env cs a s)) =
      Some \<lparr>user_pk = None, username = uid_field a, email = uid_field a\<rparr>"
    by (simp add: validate_no_user [OF n] invalid_identifier_state)
  have c: "plan (snd (validate env cs a s)) =
      \<lparr>PLAN_CONTEXT_PENDING_USER =
         Some \<lparr>user_pk = None, username = uid_field a, email = uid_field a\<rparr>,
       PLAN_CONTEXT_PENDING_USER_IDENTIFIER =
         (if \<not> show_matched_user cs then Some (uid_field a)
          else PLAN_CONTEXT_PENDING_USER_IDENTIFIER (plan s))\<rparr>"
    by (simp add: validate_no_user [OF n] invalid_identifier_state)
  show ?thesis using e q r p c by simp
qed

theorem C9_empty_user_fields_witness:
  "user_fields (ex_stage\<lparr>user_fields := []\<rparr>) = [] \<and>
   validate ex_stage_env (ex_stage\<lparr>user_fields := []\<rparr>) (ex_attrs ''alice'') ex_start =
     (Inl (ValidationError ''Failed to authenticate.''),
      \<lparr>pre_user = Some \<lparr>user_pk = None, username = ''alice'', email = ''alice''\<rparr>,
       plan = \<lparr>PLAN_CONTEXT_PENDING_USER =
           Some \<lparr>user_pk = None, username = ''alice'', email = ''alice''\<rparr>,
         PLAN_CONTEXT_PENDING_USER_IDENTIFIER = Some ''alice''\<rparr>,
       effects = [LogDebug ''Empty user query'', Sleep (150 / 1000), LogInfo ''invalid_login'',
         IdentificationFailed ''alice'']\<rparr>) \<and>
   user_queries (effects (snd (validate ex_stage_env (ex_stage\<lparr>user_fields := []\<rparr>)
     (ex_attrs ''alice'') ex_start))) = []"
proof -
  have f: "user_fields (ex_stage\<lparr>user_fields := []\<rparr>) = []" by simp
  have v: "validate ex_stage_env (ex_stage\<lparr>user_fields := []\<rparr>) (ex_attrs ''alice'') ex_start =
     (Inl (ValidationError ''Failed to authenticate.''),
      \<lparr>pre_user = Some \<lparr>user_pk = None, username = ''alice'', email = ''alice''\<rparr>,
       plan = \<lparr>PLAN_CONTEXT_PENDING_USER =
           Some \<lparr>user_pk = None, username = ''alice'', email = ''alice''\<rparr>,
         PLAN_CONTEXT_PENDING_USER_IDENTIFIER = Some ''alice''\<rparr>,
       effects = [LogDebug ''Empty user query'', Sleep (150 / 1000), LogInfo ''invalid_login'',
         IdentificationFailed ''alice'']\<rparr>)"
    by (simp add: stage_defs ex_stage_env_def ex_stage_def ex_start_def ex_attrs_def)
  have "user_queries (effects (snd (validate ex_stage_env (ex_stage\<lparr>user_fields := []\<rparr>)
     (ex_attrs ''alice'') ex_start))) = user_queries (effects ex_start)"
    using C9_empty_user_fields [OF f, of ex_stage_env "ex_attrs ''alice''" ex_start] by blast
  then show ?thesis using f v by (simp add: ex_start_def user_queries_def)
qed

text \<open>
  Claim C9 as stated says that the attempt is rejected. With \<open>pretend_user_exists\<close> set
  and no password stage, the attempt with an empty list of user fields is accepted.
\<close>

theorem C9_counterexample:
  "user_fields (ex_stage\<lparr>user_fields := [], pretend_user_exists := True\<rparr>) = [] \<and>
   fst (validate ex_stage_env (ex_stage\<lparr>user_fields := [], pretend_user_exists := True\<rparr>)
     (ex_attrs ''alice'') ex_start) = Inr (ex_attrs ''alice'')"
  by (simp add: stage_defs ex_stage_env_def ex_stage_def ex_start_def ex_attrs_def)

subsection \<open>The failure that the user sees\<close>

text \<open>
  Claim C2, as amended. With a password stage configured, an identifier that matches no
  user is rejected with the validation failure \<open>Failed to authenticate.\<close>. For an identifier
  that matches a user, when the captcha check passes or no captcha stage is configured:
  a wrong password (the authentication returns no user) is rejected with the same
  failure, so the two results are equal; a permission denial raised by the authentication
  becomes a validation failure that carries the message of the denial.
\<close>

theorem C2_same_failure:
  assumes ps: "password_stage cs = Some ps"
    and found: "fst (get_user env cs (uid_field a1) (effects s1)) = Inr (Some u)"
    and captcha: "case captcha_stage cs of None \<Rightarrow> True
      | Some c \<Rightarrow> verify_captcha_token env c (captcha_token a1) (client_ip env) = None"
    and missing: "fst (get_user env cs (uid_field a2) (effects s2)) = Inr None"
  shows "fst (validate env cs a2 s2) = Inl (ValidationError ''Failed to authenticate.'') \<and>
    (authenticate env (backends ps) cs (username u) (password a1) = Inr None \<longrightarrow>
      fst (validate env cs a1 s1) = fst (validate env cs a2 s2)) \<and>
    (\<forall>msg. authenticate env (backends ps) cs (username u) (password a1) =
        Inl (PermissionDenied msg) \<longrightarrow>
      fst (validate env cs a1 s1) = Inl (ValidationError msg))"
proof -
  let ?s = "s1\<lparr>effects := snd (get_user env cs (uid_field a1) (effects s1)), pre_user := Some u\<rparr>"
  have m: "fst (validate env cs a2 s2) = Inl (ValidationError ''Failed to authenticate.'')"
    by (simp add: validate_no_user [OF missing] invalid_identifier_result ps)
  have c: "fst (captcha_check env cs a1 ?s) = None"
    using captcha by (simp add: captcha_check_result split: option.splits)
  then have v: "fst (validate env cs a1 s1) =
      fst (password_check env cs a1 u (snd (captcha_check env cs a1 ?s)))"
    unfolding validate_found [OF found] by (cases "captcha_check env cs a1 ?s") simp
  have w: "authenticate env (backends ps) cs (username u) (password a1) = Inr None \<Longrightarrow>
      fst (validate env cs a1 s1) = Inl (ValidationError ''Failed to authenticate.'')"
    by (simp add: v password_check_result [OF ps])
  have d: "\<And>msg. authenticate env (backends ps) cs (username u) (password a1) =
        Inl (PermissionDenied msg) \<Longrightarrow>
      fst (validate env cs a1 s1) = Inl (ValidationError msg)"
    by (simp add: v password_check_result [OF ps])
  show ?thesis using m w d by simp
qed

definition ex_combo_stage :: IdentificationStage where
  "ex_combo_stage = ex_stage\<lparr>password_stage := Some ex_pw_stage, captcha_stage := Some ex_captcha\<rparr>"

definition ex_wrong_password :: attrs where
  "ex_wrong_password =
    \<lparr>uid_field = ''alice'', password = Some ''guess'', captcha_token = Some ''good-token''\<rparr>"

definition ex_denying_env :: stage_env where
  "ex_denying_env =
    ex_stage_env\<lparr>authenticate := (\<lambda>b st u p. Inl (PermissionDenied ''Account locked''))\<rparr>"

theorem C2_same_failure_witness:
  "fst (get_user ex_stage_env ex_combo_stage ''alice'' []) = Inr (Some ex_alice) \<and>
   fst (get_user ex_stage_env ex_combo_stage ''mallory'' []) = Inr None \<and>
   fst (validate ex_stage_env ex_combo_stage ex_wrong_password ex_start) =
     Inl (ValidationError ''Failed to authenticate.'') \<and>
   fst (validate ex_stage_env ex_combo_stage (ex_attrs ''mallory'') ex_start) =
     Inl (ValidationError ''Failed to authenticate.'') \<and>
   fst (validate ex_denying_env ex_combo_stage ex_wrong_password ex_start) =
     Inl (ValidationError ''Account locked'')"
proof -
  have ps: "password_stage ex_combo_stage = Some ex_pw_stage"
    by (simp add: ex_combo_stage_def)
  have e: "effects ex_start = []" "uid_field ex_wrong_password = ''alice''"
    "uid_field (ex_attrs ''mallory'') = ''mallory''"
    by (simp_all add: ex_start_def ex_wrong_password_def ex_attrs_def)
  have ga: "fst (get_user ex_stage_env ex_combo_stage ''alice'' []) = Inr (Some ex_alice)"
    and gm: "fst (get_user ex_stage_env ex_combo_stage ''mallory'' []) = Inr None"
    and gd: "fst (get_user ex_denying_env ex_combo_stage ''alice'' []) = Inr (Some ex_alice)"
    and gdm: "fst (get_user ex_denying_env ex_combo_stage ''mallory'' []) = Inr None"
    by (simp_all add: stage_defs ex_stage_env_def ex_denying_env_def ex_combo_stage_def ex_stage_def)
  have c: "case captcha_stage ex_combo_stage of None \<Rightarrow> True
      | Some c \<Rightarrow> verify_captcha_token ex_stage_env c (captcha_token ex_wrong_password)
          (client_ip ex_stage_env) = None"
    and cd: "case captcha_stage ex_combo_stage of None \<Rightarrow> True
      | Some c \<Rightarrow> verify_captcha_token ex_denying_env c (captcha_token ex_wrong_password)
          (client_ip ex_denying_env) = None"
    by (simp_all add: ex_combo_stage_def ex_stage_env_def ex_denying_env_def ex_wrong_password_def)
  have au: "authenticate ex_stage_env (backends ex_pw_stage) ex_combo_stage (username ex_alice)
      (password ex_wrong_password) = Inr None"
    by (simp add: ex_stage_env_def ex_wrong_password_def)
  have ad: "authenticate ex_denying_env (backends ex_pw_stage) ex_combo_stage (username ex_alice)
      (password ex_wrong_password) = Inl (PermissionDenied ''Account locked'')"
    by (simp add: ex_stage_env_def ex_denying_env_def)
  have t1: "fst (validate ex_stage_env ex_combo_stage (ex_attrs ''mallory'') ex_start) =
      Inl (ValidationError ''Failed to authenticate.'') \<and>
    fst (validate ex_stage_env ex_combo_stage ex_wrong_password ex_start) =
      fst (validate ex_stage_env ex_combo_stage (ex_attrs ''mallory'') ex_start)"
    using C2_same_failure [of ex_combo_stage ex_pw_stage ex_stage_env ex_wrong_password ex_start
      ex_alice "ex_attrs ''mallory''" ex_start] ps ga gm c au
    by (simp add: e)
  have t2: "fst (validate ex_denying_env ex_combo_stage ex_wrong_password ex_start) =
      Inl (ValidationError ''Account locked'')"
    using C2_same_failure [of ex_combo_stage ex_pw_stage ex_denying_env ex_wrong_password ex_start
      ex_alice "ex_attrs ''mallory''" ex_start] ps gd gdm cd ad
    by (simp add: e)
  show ?thesis using ga gm t1 t2 by simp
qed

text \<open>
  Claim C2 as stated does not hold. With a captcha stage configured, an attempt with an
  identifier that exists, a wrong password and a token that the captcha collaborator
  refuses ends with the collaborator's failure, while the same attempt with an identifier
  that matches no user ends with \<open>Failed to authenticate.\<close>. And a permission denial is
  shown with its own message, not with the generic one.
\<close>

theorem C2_counterexample:
  "fst (validate ex_stage_env ex_combo_stage
      (ex_wrong_password\<lparr>captcha_token := Some ''bad-token''\<rparr>) ex_start) =
     Inl (ValidationError ''Invalid captcha response'') \<and>
   fst (validate ex_stage_env ex_combo_stage
      (ex_wrong_password\<lparr>uid_field := ''mallory'', captcha_token := Some ''bad-token''\<rparr>) ex_start) =
     Inl (ValidationError ''Failed to authenticate.'') \<and>
   fst (validate ex_denying_env ex_combo_stage ex_wrong_password ex_start) =
     Inl (ValidationError ''Account locked'')"
  by (simp add: stage_defs ex_stage_defs ex_combo_stage_def ex_wrong_password_def ex_denying_env_def)

end
